theory Spec2Isabelle
  imports Main "HOL-Library.Sublist" "HOL-Library.AList"
begin

section \<open>Python values, exceptions and string methods\<close>

text \<open>
  The module \<^verbatim>\<open>mcp_server/custom_types_utils.py\<close> turns user-written configuration
  (JSON text or the dict decoded from it) into tables of record types and of allowed
  edge types per entity pair.  Its inputs are the objects \<^verbatim>\<open>json.loads\<close> produces:
  \<^verbatim>\<open>None\<close>, booleans, integers, floats, strings, lists and dicts with string keys.

  A scalar is a hashable value.  A float is carried by its \<^verbatim>\<open>repr\<close> text (for example
  \<^verbatim>\<open>1.5\<close>, \<^verbatim>\<open>-0.0\<close>, \<^verbatim>\<open>nan\<close>): the module only ever prints a float or tests it for
  zero.  A dict is the list of its items in insertion order; Python keeps the keys of a
  dict distinct.  A \<^typ>\<open>char\<close> stands for one code point below 256, so the strings of the
  model are the Python strings over that range.
\<close>

datatype scalar = SNone | SBool bool | SInt int | SFloat string | SStr string

datatype pyvalue =
    Scalar scalar
  | VList "pyvalue list"
  | VDict "(string \<times> pyvalue) list"

abbreviation VNone :: pyvalue where "VNone \<equiv> Scalar SNone"
abbreviation VBool :: "bool \<Rightarrow> pyvalue" where "VBool b \<equiv> Scalar (SBool b)"
abbreviation VInt :: "int \<Rightarrow> pyvalue" where "VInt i \<equiv> Scalar (SInt i)"
abbreviation VFloat :: "string \<Rightarrow> pyvalue" where "VFloat r \<equiv> Scalar (SFloat r)"
abbreviation VStr :: "string \<Rightarrow> pyvalue" where "VStr s \<equiv> Scalar (SStr s)"

text \<open>
  The exceptions that can leave the module.  \<^verbatim>\<open>ValueError\<close> and \<^verbatim>\<open>TypeError\<close> are raised
  by the module itself, \<^verbatim>\<open>AttributeError\<close> and the unhashable-key \<^verbatim>\<open>TypeError\<close> by the
  interpreter, \<^verbatim>\<open>JSONDecodeError\<close> and \<^verbatim>\<open>RecursionError\<close> by \<^verbatim>\<open>json.loads\<close>.  Each carries
  its message, which is what \<^verbatim>\<open>str(e)\<close> and \<^verbatim>\<open>f"{e}"\<close> return.
\<close>

datatype exn =
    ValueError string
  | TypeError string
  | AttributeError string
  | JSONDecodeError string
  | RecursionError string

fun exn_str :: "exn \<Rightarrow> string" where
  "exn_str (ValueError m) = m"
| "exn_str (TypeError m) = m"
| "exn_str (AttributeError m) = m"
| "exn_str (JSONDecodeError m) = m"
| "exn_str (RecursionError m) = m"

subsection \<open>Formatting\<close>

definition sq :: string where
  "sq = [CHR 0x27]"

definition quoted :: "string \<Rightarrow> string" where
  \<comment> \<open>\<^verbatim>\<open>f"'{s}'"\<close>\<close>
  "quoted s = sq @ s @ sq"

fun type_name :: "pyvalue \<Rightarrow> string" where
  \<comment> \<open>\<^verbatim>\<open>type(v).__name__\<close>\<close>
  "type_name (Scalar SNone) = ''NoneType''"
| "type_name (Scalar (SBool b)) = ''bool''"
| "type_name (Scalar (SInt i)) = ''int''"
| "type_name (Scalar (SFloat r)) = ''float''"
| "type_name (Scalar (SStr s)) = ''str''"
| "type_name (VList xs) = ''list''"
| "type_name (VDict kvs) = ''dict''"

definition type_repr :: "pyvalue \<Rightarrow> string" where
  \<comment> \<open>\<^verbatim>\<open>f"{type(v)}"\<close>, for example \<^verbatim>\<open><class 'str'>\<close>\<close>
  "type_repr v = ''<class '' @ quoted (type_name v) @ ''>''"

definition digit_char :: "nat \<Rightarrow> char" where
  "digit_char d = char_of (48 + d)"

fun digits_of :: "nat \<Rightarrow> string" where
  "digits_of n = (if n < 10 then [digit_char n] else digits_of (n div 10) @ [digit_char (n mod 10)])"

declare digits_of.simps [simp del]

definition str_int :: "int \<Rightarrow> string" where
  \<comment> \<open>\<^verbatim>\<open>str(i)\<close>; the interpreter's optional limit on the number of digits is left out\<close>
  "str_int i = (if i < 0 then CHR ''-'' # digits_of (nat (- i)) else digits_of (nat i))"

fun py_str :: "scalar \<Rightarrow> string" where
  \<comment> \<open>\<^verbatim>\<open>f"{v}"\<close> of a scalar\<close>
  "py_str SNone = ''None''"
| "py_str (SBool b) = (if b then ''True'' else ''False'')"
| "py_str (SInt i) = str_int i"
| "py_str (SFloat r) = r"
| "py_str (SStr s) = s"

fun truthy :: "pyvalue \<Rightarrow> bool" where
  \<comment> \<open>\<^verbatim>\<open>bool(v)\<close>, as in \<^verbatim>\<open>if docstring:\<close>\<close>
  "truthy (Scalar SNone) = False"
| "truthy (Scalar (SBool b)) = b"
| "truthy (Scalar (SInt i)) = (i \<noteq> 0)"
| "truthy (Scalar (SFloat r)) = (r \<noteq> ''0.0'' \<and> r \<noteq> ''-0.0'')"
| "truthy (Scalar (SStr s)) = (s \<noteq> [])"
| "truthy (VList xs) = (xs \<noteq> [])"
| "truthy (VDict kvs) = (kvs \<noteq> [])"

definition dict_items :: "pyvalue \<Rightarrow> exn + (string \<times> pyvalue) list" where
  \<comment> \<open>\<^verbatim>\<open>v.items()\<close>: only a dict has the method\<close>
  "dict_items v =
     (case v of
        VDict kvs \<Rightarrow> Inr kvs
      | _ \<Rightarrow> Inl (AttributeError (quoted (type_name v) @ '' object has no attribute '' @
               quoted ''items'')))"

subsection \<open>String methods\<close>

definition startswith :: "string \<Rightarrow> string \<Rightarrow> bool" where
  "startswith s p = (take (length p) s = p)"

definition endswith :: "string \<Rightarrow> string \<Rightarrow> bool" where
  "endswith s p = (length p \<le> length s \<and> drop (length s - length p) s = p)"

definition slice :: "string \<Rightarrow> nat \<Rightarrow> nat \<Rightarrow> string" where
  \<comment> \<open>\<^verbatim>\<open>s[i:-j]\<close> for \<open>j > 0\<close>: the stop index \<open>len(s) - j\<close> is clamped at 0\<close>
  "slice s i j = drop i (take (length s - j) s)"

text \<open>
  \<^verbatim>\<open>s.split(sep)\<close> for a non-empty separator: the occurrences of \<open>sep\<close> are found from the
  left and do not overlap.  (Python raises on an empty separator; the module only passes
  a constant of two characters.)
\<close>

function split_from :: "string \<Rightarrow> string \<Rightarrow> string \<Rightarrow> string list" where
  "split_from sep cur [] = [cur]"
| "split_from sep cur (c # cs) =
     (if sep \<noteq> [] \<and> take (length sep) (c # cs) = sep
      then cur # split_from sep [] (drop (length sep) (c # cs))
      else split_from sep (cur @ [c]) cs)"
  by pat_completeness auto
termination
  by (relation "measure (\<lambda>(sep, cur, s). length s)") auto

definition py_split :: "string \<Rightarrow> string \<Rightarrow> string list" where
  "py_split s sep = split_from sep [] s"

definition whitespace :: "char list" where
  \<comment> \<open>the code points below 256 for which \<^verbatim>\<open>str.isspace\<close> holds\<close>
  "whitespace = [CHR 0x09, CHR 0x0A, CHR 0x0B, CHR 0x0C, CHR 0x0D, CHR 0x1C, CHR 0x1D,
     CHR 0x1E, CHR 0x1F, CHR 0x20, CHR 0x85, CHR 0xA0]"

definition strip_chars :: "string \<Rightarrow> char list \<Rightarrow> string" where
  \<comment> \<open>\<^verbatim>\<open>s.strip(chars)\<close>: drop the leading and the trailing characters that are in \<open>chars\<close>\<close>
  "strip_chars s chars =
     rev (dropWhile (\<lambda>c. c \<in> set chars) (rev (dropWhile (\<lambda>c. c \<in> set chars) s)))"

definition strip :: "string \<Rightarrow> string" where
  \<comment> \<open>\<^verbatim>\<open>s.strip()\<close>\<close>
  "strip s = strip_chars s whitespace"

section \<open>Edge mappings\<close>

type_synonym edge_table = "((string \<times> string) \<times> pyvalue) list"

definition key_prefix :: string where
  "key_prefix = [CHR ''('', CHR 0x27]"

definition key_suffix :: string where
  "key_suffix = [CHR 0x27, CHR '')'']"

definition key_separator :: string where
  "key_separator = [CHR 0x27, CHR '','']"

definition quote_chars :: "char list" where
  "quote_chars = [CHR 0x27, CHR 0x22]"

definition isinstance_list :: "pyvalue \<Rightarrow> bool" where
  "isinstance_list v = (case v of VList xs \<Rightarrow> True | _ \<Rightarrow> False)"

definition key_format_message :: "string \<Rightarrow> string" where
  \<open>key_format_message key_str =
     ''Invalid edge mapping key format: '' @ quoted key_str @
     ''. Expected format: "('Source', 'Target')"''\<close>

subsection \<open>\<^verbatim>\<open>convert_edge_mappings\<close>\<close>

text \<open>
  The body of the \<^verbatim>\<open>try\<close> block: the key is cut, split and trimmed, the value is checked
  and the entry is stored.  A dict assignment replaces the value of a key that is already
  there and appends a new key otherwise, which is \<^const>\<open>AList.update\<close>.  The logging call
  does not change the result.
\<close>

definition convert_edge_mappings_try ::
  "edge_table \<Rightarrow> string \<Rightarrow> pyvalue \<Rightarrow> exn + edge_table" where
  "convert_edge_mappings_try edge_mappings key_str edge_list =
     (let content = slice key_str 2 2;
          parts = map (\<lambda>part. strip_chars (strip part) quote_chars) (py_split content key_separator)
      in if length parts \<noteq> 2
         then Inl (ValueError (''Edge mapping key must have exactly 2 entities: '' @ quoted key_str))
         else let key_tuple = (parts ! 0, parts ! 1)
              in if \<not> isinstance_list edge_list
                 then Inl (ValueError (''Edge list for key '' @ quoted key_str @
                        '' must be a list, got: '' @ type_repr edge_list))
                 else Inr (AList.update key_tuple edge_list edge_mappings))"

fun convert_edge_mappings_loop ::
  "edge_table \<Rightarrow> (string \<times> pyvalue) list \<Rightarrow> exn + edge_table" where
  "convert_edge_mappings_loop edge_mappings [] = Inr edge_mappings"
| "convert_edge_mappings_loop edge_mappings ((key_str, edge_list) # items) =
     (if \<not> startswith key_str key_prefix \<or> \<not> endswith key_str key_suffix
      then Inl (ValueError (key_format_message key_str))
      else case convert_edge_mappings_try edge_mappings key_str edge_list of
             Inl e \<Rightarrow> Inl (ValueError (''Failed to parse edge mapping key '' @ quoted key_str @
                        '': '' @ exn_str e))
           | Inr edge_mappings' \<Rightarrow> convert_edge_mappings_loop edge_mappings' items)"

definition convert_edge_mappings :: "(string \<times> pyvalue) list \<Rightarrow> exn + edge_table" where
  "convert_edge_mappings edge_data = convert_edge_mappings_loop [] edge_data"

subsection \<open>\<^verbatim>\<open>parse_json_to_edge_mappings\<close>\<close>

text \<open>
  \<^verbatim>\<open>json.loads\<close> belongs to the standard library and is a parameter \<open>loads\<close> of every
  function that decodes: it returns the decoded value or the exception it raised.  Only a
  \<^verbatim>\<open>JSONDecodeError\<close> is caught and turned into a \<^verbatim>\<open>ValueError\<close>; anything else the decoder
  raises leaves the function as it is.  The loop is written out a second time in the
  source, and so it is here.
\<close>

type_synonym json_loads = "string \<Rightarrow> exn + pyvalue"

definition parse_json_to_edge_mappings_try ::
  "edge_table \<Rightarrow> string \<Rightarrow> pyvalue \<Rightarrow> exn + edge_table" where
  "parse_json_to_edge_mappings_try edge_mappings key_str edge_list =
     (let content = slice key_str 2 2;
          parts = map (\<lambda>part. strip_chars (strip part) quote_chars) (py_split content key_separator)
      in if length parts \<noteq> 2
         then Inl (ValueError (''Edge mapping key must have exactly 2 entities: '' @ quoted key_str))
         else let key_tuple = (parts ! 0, parts ! 1)
              in if \<not> isinstance_list edge_list
                 then Inl (ValueError (''Edge list for key '' @ quoted key_str @
                        '' must be a list, got: '' @ type_repr edge_list))
                 else Inr (AList.update key_tuple edge_list edge_mappings))"

fun parse_json_to_edge_mappings_loop ::
  "edge_table \<Rightarrow> (string \<times> pyvalue) list \<Rightarrow> exn + edge_table" where
  "parse_json_to_edge_mappings_loop edge_mappings [] = Inr edge_mappings"
| "parse_json_to_edge_mappings_loop edge_mappings ((key_str, edge_list) # items) =
     (if \<not> startswith key_str key_prefix \<or> \<not> endswith key_str key_suffix
      then Inl (ValueError (key_format_message key_str))
      else case parse_json_to_edge_mappings_try edge_mappings key_str edge_list of
             Inl e \<Rightarrow> Inl (ValueError (''Failed to parse edge mapping key '' @ quoted key_str @
                        '': '' @ exn_str e))
           | Inr edge_mappings' \<Rightarrow> parse_json_to_edge_mappings_loop edge_mappings' items)"

definition parse_json_to_edge_mappings :: "json_loads \<Rightarrow> string \<Rightarrow> exn + edge_table" where
  "parse_json_to_edge_mappings loads json_str =
     (case loads json_str of
        Inl (JSONDecodeError e) \<Rightarrow> Inl (ValueError (''Invalid JSON format for edge mappings: '' @ e))
      | Inl e \<Rightarrow> Inl e
      | Inr edge_data \<Rightarrow>
          (case dict_items edge_data of
             Inl e \<Rightarrow> Inl e
           | Inr items \<Rightarrow> parse_json_to_edge_mappings_loop [] items))"

section \<open>Entity and edge types\<close>

subsection \<open>The type table\<close>

datatype pytype =
    T_str | T_int | T_float | T_bool | T_list | T_dict | T_Any
  | T_List pytype
  | T_Dict pytype pytype

definition TYPE_MAPPING :: "(string \<times> pytype) list" where
  "TYPE_MAPPING =
     [(''str'', T_str),
      (''int'', T_int),
      (''float'', T_float),
      (''bool'', T_bool),
      (''list'', T_list),
      (''dict'', T_dict),
      (''List[str]'', T_List T_str),
      (''List[int]'', T_List T_int),
      (''List[float]'', T_List T_float),
      (''Dict[str, Any]'', T_Dict T_str T_Any),
      (''Dict[str, str]'', T_Dict T_str T_str),
      (''Dict[str, int]'', T_Dict T_str T_int)]"

fun join :: "string \<Rightarrow> string list \<Rightarrow> string" where
  "join sep [] = []"
| "join sep [x] = x"
| "join sep (x # y # ys) = x @ sep @ join sep (y # ys)"

definition repr_names :: "string list \<Rightarrow> string" where
  \<comment> \<open>\<^verbatim>\<open>repr\<close> of a list of strings that hold no quote, no backslash and no control
      character, as the names of the type table do\<close>
  "repr_names names = ''['' @ join '', '' (map quoted names) @ '']''"

definition unsupported_message :: "scalar \<Rightarrow> string \<Rightarrow> string \<Rightarrow> string" where
  "unsupported_message field_type_str field_name entity_name =
     ''Unsupported field type '' @ quoted (py_str field_type_str) @
     '' for field '' @ quoted field_name @
     '' in entity '' @ quoted entity_name @
     ''. Supported types: '' @ repr_names (map fst TYPE_MAPPING)"

definition unhashable_message :: "pyvalue \<Rightarrow> string" where
  \<comment> \<open>the interpreter's text for a list or dict used as a dict key (wording of CPython up
      to 3.13)\<close>
  "unhashable_message v = ''unhashable type: '' @ quoted (type_name v)"

subsection \<open>Record types\<close>

text \<open>
  \<^verbatim>\<open>pydantic.create_model\<close> is a library function.  What it returns is described by a
  record: the name of the class, its fields in the order of the keyword arguments, and
  the \<^verbatim>\<open>__doc__\<close> this module assigned, if it assigned one.  A field given as the pair
  \<^verbatim>\<open>(type, ...)\<close> has the annotation \<open>type\<close> and is required, the ellipsis saying that
  there is no default.  Which names and fields pydantic refuses is not decided here: the
  parameter \<open>rejects\<close> returns the text of the exception pydantic raises, or \<open>None\<close>
  when it accepts.
\<close>

datatype default_value = Ellipsis | Default pyvalue

record field_info =
  annotation :: pytype
  required :: bool

record model =
  model_name :: string
  model_fields :: "(string \<times> field_info) list"
  model_doc :: "pyvalue option"

type_synonym field_definitions = "(string \<times> pytype \<times> default_value) list"
type_synonym pydantic_rejects = "string \<Rightarrow> field_definitions \<Rightarrow> string option"
type_synonym type_table = "(string \<times> model) list"

definition field_of :: "pytype \<times> default_value \<Rightarrow> field_info" where
  "field_of d = \<lparr>annotation = fst d, required = (snd d = Ellipsis)\<rparr>"

definition create_model ::
  "pydantic_rejects \<Rightarrow> string \<Rightarrow> field_definitions \<Rightarrow> string + model" where
  "create_model rejects name field_definitions =
     (case rejects name field_definitions of
        Some e \<Rightarrow> Inl e
      | None \<Rightarrow> Inr \<lparr>model_name = name,
                      model_fields = map (\<lambda>(f, d). (f, field_of d)) field_definitions,
                      model_doc = None\<rparr>)"

definition type_lookup :: "scalar \<Rightarrow> pytype option" where
  \<comment> \<open>the entry of \<^verbatim>\<open>TYPE_MAPPING\<close> under a hashable key: every key of the table is a
      string, so no other scalar is found in it\<close>
  "type_lookup x = (case x of SStr t \<Rightarrow> map_of TYPE_MAPPING t | _ \<Rightarrow> None)"

definition fields_key_message :: "string \<Rightarrow> string" where
  "fields_key_message entity_name = ''Entity '' @ quoted entity_name @ '' must have 'fields' key''"

subsection \<open>\<^verbatim>\<open>create_entity_types_from_dict\<close>\<close>

text \<open>
  One definition per part of the function: the inner loop over \<^verbatim>\<open>fields.items()\<close>, the
  rest of the body of the outer loop for one entry, and the outer loop.

  The test \<^verbatim>\<open>field_type_str not in TYPE_MAPPING\<close> hashes its left side, so a list or a
  dict there makes the interpreter raise; every scalar that is not one of the twelve names
  is reported by the module.  The field loop and \<^verbatim>\<open>fields.items()\<close> are outside the
  \<^verbatim>\<open>try\<close> block, so their exceptions are not wrapped; inside it only \<^verbatim>\<open>create_model\<close>
  can raise.  An entry is first tested for being a dict with the key \<^verbatim>\<open>fields\<close>.
\<close>

fun create_entity_types_from_dict_fields ::
  "string \<Rightarrow> field_definitions \<Rightarrow> (string \<times> pyvalue) list \<Rightarrow> exn + field_definitions" where
  "create_entity_types_from_dict_fields entity_name pydantic_fields [] = Inr pydantic_fields"
| "create_entity_types_from_dict_fields entity_name pydantic_fields
     ((field_name, Scalar field_type_str) # items) =
     (case type_lookup field_type_str of
        None \<Rightarrow> Inl (TypeError (unsupported_message field_type_str field_name entity_name))
      | Some ty \<Rightarrow>
          create_entity_types_from_dict_fields entity_name
            (AList.update field_name (ty, Ellipsis) pydantic_fields) items)"
| "create_entity_types_from_dict_fields entity_name pydantic_fields
     ((field_name, field_type_str) # items) =
     Inl (TypeError (unhashable_message field_type_str))"

definition create_entity_types_from_dict_model ::
  "pydantic_rejects \<Rightarrow> string \<Rightarrow> pyvalue \<Rightarrow> pyvalue \<Rightarrow> exn + model" where
  "create_entity_types_from_dict_model rejects entity_name fields' docstring =
     (case dict_items fields' of
        Inl e \<Rightarrow> Inl e
      | Inr field_items \<Rightarrow>
          (case create_entity_types_from_dict_fields entity_name [] field_items of
             Inl e \<Rightarrow> Inl e
           | Inr pydantic_fields \<Rightarrow>
               (case create_model rejects entity_name pydantic_fields of
                  Inl e \<Rightarrow> Inl (ValueError (''Failed to create entity model '' @
                             quoted entity_name @ '': '' @ e))
                | Inr m \<Rightarrow> Inr (if truthy docstring then m\<lparr>model_doc := Some docstring\<rparr> else m))))"

fun create_entity_types_from_dict_loop ::
  "pydantic_rejects \<Rightarrow> type_table \<Rightarrow> (string \<times> pyvalue) list \<Rightarrow> exn + type_table" where
  "create_entity_types_from_dict_loop rejects entity_types [] = Inr entity_types"
| "create_entity_types_from_dict_loop rejects entity_types ((entity_name, entity_config) # items) =
     (case entity_config of
        VDict cfg \<Rightarrow>
          (case map_of cfg ''fields'' of
             None \<Rightarrow> Inl (ValueError (fields_key_message entity_name))
           | Some fields' \<Rightarrow>
               (let docstring = (case map_of cfg ''docstring'' of Some d \<Rightarrow> d | None \<Rightarrow> VStr [])
                in case create_entity_types_from_dict_model rejects entity_name fields' docstring of
                     Inl e \<Rightarrow> Inl e
                   | Inr m \<Rightarrow>
                       create_entity_types_from_dict_loop rejects (AList.update entity_name m entity_types) items))
      | _ \<Rightarrow> Inl (ValueError (fields_key_message entity_name)))"

definition create_entity_types_from_dict ::
  "pydantic_rejects \<Rightarrow> (string \<times> pyvalue) list \<Rightarrow> exn + type_table" where
  "create_entity_types_from_dict rejects entity_data =
     create_entity_types_from_dict_loop rejects [] entity_data"

subsection \<open>\<^verbatim>\<open>parse_json_to_entity_types\<close>\<close>

text \<open>
  The same three parts, as the source repeats them, after the decoding of the text.
\<close>

fun parse_json_to_entity_types_fields ::
  "string \<Rightarrow> field_definitions \<Rightarrow> (string \<times> pyvalue) list \<Rightarrow> exn + field_definitions" where
  "parse_json_to_entity_types_fields entity_name pydantic_fields [] = Inr pydantic_fields"
| "parse_json_to_entity_types_fields entity_name pydantic_fields
     ((field_name, Scalar field_type_str) # items) =
     (case type_lookup field_type_str of
        None \<Rightarrow> Inl (TypeError (unsupported_message field_type_str field_name entity_name))
      | Some ty \<Rightarrow>
          parse_json_to_entity_types_fields entity_name
            (AList.update field_name (ty, Ellipsis) pydantic_fields) items)"
| "parse_json_to_entity_types_fields entity_name pydantic_fields
     ((field_name, field_type_str) # items) =
     Inl (TypeError (unhashable_message field_type_str))"

definition parse_json_to_entity_types_model ::
  "pydantic_rejects \<Rightarrow> string \<Rightarrow> pyvalue \<Rightarrow> pyvalue \<Rightarrow> exn + model" where
  "parse_json_to_entity_types_model rejects entity_name fields' docstring =
     (case dict_items fields' of
        Inl e \<Rightarrow> Inl e
      | Inr field_items \<Rightarrow>
          (case parse_json_to_entity_types_fields entity_name [] field_items of
             Inl e \<Rightarrow> Inl e
           | Inr pydantic_fields \<Rightarrow>
               (case create_model rejects entity_name pydantic_fields of
                  Inl e \<Rightarrow> Inl (ValueError (''Failed to create entity model '' @
                             quoted entity_name @ '': '' @ e))
                | Inr m \<Rightarrow> Inr (if truthy docstring then m\<lparr>model_doc := Some docstring\<rparr> else m))))"

fun parse_json_to_entity_types_loop ::
  "pydantic_rejects \<Rightarrow> type_table \<Rightarrow> (string \<times> pyvalue) list \<Rightarrow> exn + type_table" where
  "parse_json_to_entity_types_loop rejects entity_types [] = Inr entity_types"
| "parse_json_to_entity_types_loop rejects entity_types ((entity_name, entity_config) # items) =
     (case entity_config of
        VDict cfg \<Rightarrow>
          (case map_of cfg ''fields'' of
             None \<Rightarrow> Inl (ValueError (fields_key_message entity_name))
           | Some fields' \<Rightarrow>
               (let docstring = (case map_of cfg ''docstring'' of Some d \<Rightarrow> d | None \<Rightarrow> VStr [])
                in case parse_json_to_entity_types_model rejects entity_name fields' docstring of
                     Inl e \<Rightarrow> Inl e
                   | Inr m \<Rightarrow>
                       parse_json_to_entity_types_loop rejects (AList.update entity_name m entity_types) items))
      | _ \<Rightarrow> Inl (ValueError (fields_key_message entity_name)))"

definition parse_json_to_entity_types ::
  "json_loads \<Rightarrow> pydantic_rejects \<Rightarrow> string \<Rightarrow> exn + type_table" where
  "parse_json_to_entity_types loads rejects json_str =
     (case loads json_str of
        Inl (JSONDecodeError e) \<Rightarrow> Inl (ValueError (''Invalid JSON format for entity types: '' @ e))
      | Inl e \<Rightarrow> Inl e
      | Inr entity_data \<Rightarrow>
          (case dict_items entity_data of
             Inl e \<Rightarrow> Inl e
           | Inr items \<Rightarrow> parse_json_to_entity_types_loop rejects [] items))"

subsection \<open>\<^verbatim>\<open>parse_json_to_edge_types\<close>\<close>

text \<open>
  The edge entry point calls the entity one inside \<^verbatim>\<open>try\<close> and turns every exception
  into a \<^verbatim>\<open>ValueError\<close>.
\<close>

definition parse_json_to_edge_types ::
  "json_loads \<Rightarrow> pydantic_rejects \<Rightarrow> string \<Rightarrow> exn + type_table" where
  "parse_json_to_edge_types loads rejects json_str =
     (case parse_json_to_entity_types loads rejects json_str of
        Inl e \<Rightarrow> Inl (ValueError (''Failed to parse edge types: '' @ exn_str e))
      | Inr entity_types \<Rightarrow> Inr entity_types)"

section \<open>Notions used in the statements\<close>

text \<open>
  The pair a key string stands for, as the two edge-mapping loops compute it: the parts of
  the cut key, each trimmed, when the key has the prefix and the suffix and there are
  exactly two parts.
\<close>

definition key_parts :: "string \<Rightarrow> string list" where
  "key_parts key_str =
     map (\<lambda>part. strip_chars (strip part) quote_chars) (py_split (slice key_str 2 2) key_separator)"

definition pair_of_key :: "string \<Rightarrow> (string \<times> string) option" where
  "pair_of_key key_str =
     (if startswith key_str key_prefix \<and> endswith key_str key_suffix \<and> length (key_parts key_str) = 2
      then Some (key_parts key_str ! 0, key_parts key_str ! 1)
      else None)"

definition supported_names_text :: string where
  "supported_names_text =
     ''['str', 'int', 'float', 'bool', 'list', 'dict', 'List[str]', 'List[int]', '' @
     '''List[float]', 'Dict[str, Any]', 'Dict[str, str]', 'Dict[str, int]']''"

text \<open>
  A decoder and an encoder for the closed examples: \<open>sample_loads\<close> returns what
  \<^verbatim>\<open>json.loads\<close> returns on each text of the table, and \<open>sample_dumps\<close> the text
  \<^verbatim>\<open>json.dumps\<close> writes for each value of the table.  Outside the table they are not meant
  to be \<^verbatim>\<open>json.loads\<close> and \<^verbatim>\<open>json.dumps\<close>.
\<close>

definition sample_texts :: "(string \<times> pyvalue) list" where
  \<open>sample_texts =
     [(''{}'', VDict []),
      (''{"E": {"fields": {"x": "string"}}}'',
         VDict [(''E'', VDict [(''fields'', VDict [(''x'', VStr ''string'')])])]),
      (''{"Person": {"fields": {"name": "str", "age": "int"}, "docstring": "A person"}}'',
         VDict [(''Person'', VDict [(''fields'', VDict [(''name'', VStr ''str''), (''age'', VStr ''int'')]),
                                    (''docstring'', VStr ''A person'')])]),
      (''{"('A', 'B')": ["KNOWS"]}'',
         VDict [(''('A', 'B')'', VList [VStr ''KNOWS''])]),
      (''{"('A', 'B')": ["KNOWS"], "Person, Company": ["WORKS_AT"]}'',
         VDict [(''('A', 'B')'', VList [VStr ''KNOWS'']),
                (''Person, Company'', VList [VStr ''WORKS_AT''])]),
      (''{"('A', 'B')": ["KNOWS"], "('Person', 'Company')": "WORKS_AT"}'',
         VDict [(''('A', 'B')'', VList [VStr ''KNOWS'']),
                (''('Person', 'Company')'', VStr ''WORKS_AT'')]),
      (''{"('A','B')": ["WORKS_AT"], "('A', 'B')": ["MANAGES"]}'',
         VDict [(''('A','B')'', VList [VStr ''WORKS_AT'']),
                (''('A', 'B')'', VList [VStr ''MANAGES''])]),
      (''{"(' A ', ' B ')": ["KNOWS"]}'',
         VDict [(''(' A ', ' B ')'', VList [VStr ''KNOWS''])])]\<close>

definition sample_loads :: json_loads where
  "sample_loads s =
     (case map_of sample_texts s of
        Some v \<Rightarrow> Inr v
      | None \<Rightarrow> Inl (JSONDecodeError ''Expecting value: line 1 column 1 (char 0)''))"

definition sample_dumps :: "pyvalue \<Rightarrow> string" where
  "sample_dumps v =
     (case map_of (map (\<lambda>(s, v). (v, s)) sample_texts) v of
        Some s \<Rightarrow> s
      | None \<Rightarrow> ''null'')"

definition accept_all :: pydantic_rejects where
  "accept_all name field_definitions = None"

section \<open>The two copies of each loop agree\<close>

lemma startswith_iff_prefix: "startswith s p \<longleftrightarrow> prefix p s"
  unfolding startswith_def prefix_def
  by (metis append_eq_conv_conj append_take_drop_id)

lemma endswith_iff_suffix: "endswith s p \<longleftrightarrow> suffix p s"
  unfolding endswith_def suffix_def
  by (metis append_eq_conv_conj append_take_drop_id length_append add_diff_cancel_right' le_add2)

lemma edge_try_same: "parse_json_to_edge_mappings_try = convert_edge_mappings_try"
  by (intro ext) (simp add: parse_json_to_edge_mappings_try_def convert_edge_mappings_try_def)

lemma edge_loop_same: "parse_json_to_edge_mappings_loop t d = convert_edge_mappings_loop t d"
  by (induction d arbitrary: t) (auto simp: edge_try_same split: sum.splits)

lemma fields_same: "parse_json_to_entity_types_fields n pf fs = create_entity_types_from_dict_fields n pf fs"
  by (induction n pf fs rule: create_entity_types_from_dict_fields.induct) (auto split: option.splits)

lemma model_same: "parse_json_to_entity_types_model = create_entity_types_from_dict_model"
  by (intro ext) (simp add: parse_json_to_entity_types_model_def create_entity_types_from_dict_model_def fields_same cong: sum.case_cong)

lemma entity_loop_same: "parse_json_to_entity_types_loop r t d = create_entity_types_from_dict_loop r t d"
  by (induction d arbitrary: t) (auto simp: model_same split: sum.splits option.splits pyvalue.splits)

section \<open>Properties of the edge-mapping loop\<close>

lemma edge_step:
  "convert_edge_mappings_loop t ((k, v) # rest) =
     (if \<not> startswith k key_prefix \<or> \<not> endswith k key_suffix
      then Inl (ValueError (key_format_message k))
      else if length (key_parts k) \<noteq> 2
      then Inl (ValueError (''Failed to parse edge mapping key '' @ quoted k @ '': '' @
                 ''Edge mapping key must have exactly 2 entities: '' @ quoted k))
      else if \<not> isinstance_list v
      then Inl (ValueError (''Failed to parse edge mapping key '' @ quoted k @ '': '' @
                 ''Edge list for key '' @ quoted k @ '' must be a list, got: '' @ type_repr v))
      else convert_edge_mappings_loop (AList.update (key_parts k ! 0, key_parts k ! 1) v t) rest)"
  by (simp add: convert_edge_mappings_try_def key_parts_def Let_def)

lemma edge_step_ok:
  "pair_of_key k = Some p \<Longrightarrow> isinstance_list v \<Longrightarrow>
   convert_edge_mappings_loop t ((k, v) # rest) = convert_edge_mappings_loop (AList.update p v t) rest"
  by (auto simp: edge_step pair_of_key_def simp del: convert_edge_mappings_loop.simps split: if_splits)

lemma edge_loop_append:
  "convert_edge_mappings_loop t (xs @ ys) =
     (case convert_edge_mappings_loop t xs of Inl e \<Rightarrow> Inl e | Inr t' \<Rightarrow> convert_edge_mappings_loop t' ys)"
proof (induction xs arbitrary: t)
  case Nil
  show ?case by simp
next
  case (Cons x xs)
  obtain k v where x: "x = (k, v)" by (cases x)
  show ?case unfolding x append_Cons edge_step using Cons.IH by simp
qed

lemma edge_loop_succeeds:
  "\<forall>(k, v) \<in> set d. pair_of_key k \<noteq> None \<and> isinstance_list v \<Longrightarrow>
   \<exists>t'. convert_edge_mappings_loop t d = Inr t'"
proof (induction d arbitrary: t)
  case Nil
  show ?case by simp
next
  case (Cons x d)
  obtain k v where x: "x = (k, v)" by (cases x)
  from Cons.prems x obtain p where p: "pair_of_key k = Some p" and v: "isinstance_list v" by auto
  from Cons.prems have "\<forall>(k, v) \<in> set d. pair_of_key k \<noteq> None \<and> isinstance_list v" by simp
  from Cons.IH [OF this] show ?case unfolding x edge_step_ok [OF p v] .
qed

lemma edge_loop_distinct:
  "convert_edge_mappings_loop t d = Inr t' \<Longrightarrow> distinct (map fst t) \<Longrightarrow> distinct (map fst t')"
proof (induction d arbitrary: t)
  case Nil
  then show ?case by simp
next
  case (Cons x d)
  obtain k v where x: "x = (k, v)" by (cases x)
  from Cons.prems(1) have
    "convert_edge_mappings_loop (AList.update (key_parts k ! 0, key_parts k ! 1) v t) d = Inr t'"
    unfolding x edge_step by (simp split: if_splits)
  from Cons.IH [OF this] Cons.prems(2) show ?case by (simp add: distinct_update)
qed

lemma edge_loop_untouched:
  "convert_edge_mappings_loop t d = Inr t' \<Longrightarrow> \<forall>(k, v) \<in> set d. pair_of_key k \<noteq> Some p \<Longrightarrow>
   map_of t' p = map_of t p"
proof (induction d arbitrary: t)
  case Nil
  then show ?case by simp
next
  case (Cons x d)
  obtain k v where x: "x = (k, v)" by (cases x)
  from Cons.prems(1) have ok: "startswith k key_prefix" "endswith k key_suffix" "length (key_parts k) = 2"
    and step: "convert_edge_mappings_loop (AList.update (key_parts k ! 0, key_parts k ! 1) v t) d = Inr t'"
    unfolding x edge_step by (simp_all split: if_splits)
  from Cons.prems(2) ok have ne: "(key_parts k ! 0, key_parts k ! 1) \<noteq> p"
    by (simp add: x pair_of_key_def)
  from Cons.prems(2) have "\<forall>(k, v) \<in> set d. pair_of_key k \<noteq> Some p" by simp
  from Cons.IH [OF step this] ne show ?case by (simp add: update_conv')
qed

lemma one_entry:
  "distinct (map fst t) \<Longrightarrow> map_of t p = Some v \<Longrightarrow> filter (\<lambda>e. fst e = p) t = [(p, v)]"
proof (induction t)
  case Nil
  then show ?case by simp
next
  case (Cons e t)
  show ?case
  proof (cases "fst e = p")
    case True
    with Cons.prems have "e = (p, v)" by (cases e) simp
    moreover have "filter (\<lambda>e. fst e = p) t = []"
    proof -
      from Cons.prems(1) True have "p \<notin> fst ` set t" by simp
      then have "\<forall>x \<in> set t. fst x \<noteq> p" by (metis imageI)
      then show ?thesis by (simp add: filter_empty_conv)
    qed
    ultimately show ?thesis by simp
  next
    case False
    with Cons show ?thesis by (cases e) auto
  qed
qed

lemma key_cut:
  assumes "prefix key_prefix k" "suffix key_suffix k" "4 \<le> length k"
  shows "k = key_prefix @ slice k 2 2 @ key_suffix"
proof -
  have len: "length key_prefix = 2" "length key_suffix = 2"
    by (simp_all add: key_prefix_def key_suffix_def)
  from assms(1) have "startswith k key_prefix" by (simp add: startswith_iff_prefix)
  then have p: "take 2 k = key_prefix" unfolding startswith_def len .
  from assms(2) have "endswith k key_suffix" by (simp add: endswith_iff_suffix)
  then have s: "drop (length k - 2) k = key_suffix" unfolding endswith_def len by simp
  have "k = take 2 k @ drop 2 k" by simp
  also have "drop 2 k = drop 2 (take (length k - 2) k @ drop (length k - 2) k)" by simp
  also have "\<dots> = drop 2 (take (length k - 2) k) @ drop (length k - 2) k"
    using assms(3) by (simp only: drop_append) simp
  finally show ?thesis unfolding slice_def p s .
qed

lemma edge_json_decoded:
  "loads s = Inr (VDict d) \<Longrightarrow> parse_json_to_edge_mappings loads s = convert_edge_mappings d"
  by (simp add: parse_json_to_edge_mappings_def convert_edge_mappings_def dict_items_def edge_loop_same)

lemma pair_of_key_parts:
  assumes "prefix key_prefix k" "suffix key_suffix k" "py_split (slice k 2 2) key_separator = [a, b]"
  shows "pair_of_key k = Some (strip_chars (strip a) quote_chars, strip_chars (strip b) quote_chars)"
  using assms by (simp add: pair_of_key_def key_parts_def startswith_iff_prefix endswith_iff_suffix)

lemma edge_single:
  "pair_of_key k = Some p \<Longrightarrow> isinstance_list v \<Longrightarrow> convert_edge_mappings [(k, v)] = Inr [(p, v)]"
  by (simp add: convert_edge_mappings_def edge_step_ok del: convert_edge_mappings_loop.simps(2))


lemma edge_reached:
  assumes "convert_edge_mappings_loop [] pre = Inr t"
  shows "convert_edge_mappings (pre @ items) = convert_edge_mappings_loop t items"
  using assms by (simp add: convert_edge_mappings_def edge_loop_append)

lemmas edge_eval = convert_edge_mappings_def convert_edge_mappings_try_def startswith_def
  endswith_def key_prefix_def key_suffix_def slice_def py_split_def key_separator_def
  strip_def strip_chars_def whitespace_def quote_chars_def isinstance_list_def

section \<open>Properties of the record-type loops\<close>

lemma entity_json_decoded:
  "loads s = Inr (VDict d) \<Longrightarrow>
   parse_json_to_entity_types loads r s = create_entity_types_from_dict r d"
  by (simp add: parse_json_to_entity_types_def create_entity_types_from_dict_def dict_items_def
      entity_loop_same)

lemma entity_loop_append:
  "create_entity_types_from_dict_loop r t (xs @ ys) =
     (case create_entity_types_from_dict_loop r t xs of
        Inl e \<Rightarrow> Inl e
      | Inr t' \<Rightarrow> create_entity_types_from_dict_loop r t' ys)"
proof (induction xs arbitrary: t)
  case Nil
  show ?case by simp
next
  case (Cons x xs)
  obtain n c where x: "x = (n, c)" by (cases x)
  show ?case unfolding x using Cons.IH
    by (simp split: pyvalue.splits option.splits sum.splits)
qed

lemma entity_reached:
  assumes "create_entity_types_from_dict_loop r [] pre = Inr t"
  shows "create_entity_types_from_dict r (pre @ items) = create_entity_types_from_dict_loop r t items"
  using assms by (simp add: create_entity_types_from_dict_def entity_loop_append)

lemma fields_supported_prefix:
  "\<forall>(f, v) \<in> set fpre. \<exists>n \<in> fst ` set TYPE_MAPPING. v = VStr n \<Longrightarrow>
   \<exists>pf'. create_entity_types_from_dict_fields e pf (fpre @ rest) =
         create_entity_types_from_dict_fields e pf' rest"
proof (induction fpre arbitrary: pf)
  case Nil
  show ?case by auto
next
  case (Cons x fpre)
  obtain f v where x: "x = (f, v)" by (cases x)
  from Cons.prems x obtain n where n: "n \<in> fst ` set TYPE_MAPPING" and v: "v = VStr n" by auto
  from n obtain ty where ty: "map_of TYPE_MAPPING n = Some ty"
    by (metis weak_map_of_SomeI map_of_eq_None_iff not_None_eq)
  from Cons.prems have "\<forall>(f, v) \<in> set fpre. \<exists>n \<in> fst ` set TYPE_MAPPING. v = VStr n" by simp
  from Cons.IH [OF this, of "AList.update f (ty, Ellipsis) pf"] show ?case
    unfolding x v by (simp add: type_lookup_def ty)
qed

lemma fields_unsupported:
  "t \<notin> fst ` set TYPE_MAPPING \<Longrightarrow>
   create_entity_types_from_dict_fields e pf ((f, VStr t) # rest) =
     Inl (TypeError (unsupported_message (SStr t) f e))"
  using map_of_eq_None_iff [of TYPE_MAPPING t] by (simp add: type_lookup_def)

lemma repr_names_text: "repr_names (map fst TYPE_MAPPING) = supported_names_text"
  by (simp add: repr_names_def TYPE_MAPPING_def supported_names_text_def quoted_def sq_def)

lemma sublist_inside: "sublist xs ys \<Longrightarrow> sublist xs (ps @ ys @ ss)"
proof -
  assume "sublist xs ys"
  then obtain p q where "ys = p @ xs @ q" by (auto simp: sublist_def)
  then have "ps @ ys @ ss = (ps @ p) @ xs @ (q @ ss)" by simp
  then show ?thesis unfolding sublist_def by blast
qed

lemma sublist_join:
  "n \<in> set names \<Longrightarrow> sublist (quoted n) (join sep (map quoted names))"
proof (induction sep names rule: join.induct)
  case (1 sep)
  then show ?case by simp
next
  case (2 sep x)
  then show ?case by simp
next
  case (3 sep x y ys)
  show ?case
  proof (cases "n = x")
    case True
    then show ?thesis by (simp add: sublist_append_rightI)
  next
    case False
    with 3 have "sublist (quoted n) (join sep (map quoted (y # ys)))" by simp
    from sublist_inside [OF this, of "quoted x @ sep" "[]"] show ?thesis by simp
  qed
qed

lemma names_in_message:
  assumes "n \<in> fst ` set TYPE_MAPPING"
  shows "sublist (quoted n) (unsupported_message x f e)"
proof -
  from assms have "sublist (quoted n) (join '', '' (map quoted (map fst TYPE_MAPPING)))"
    by (intro sublist_join) simp
  from sublist_inside [OF this, of "''[''" "'']''"]
  have "sublist (quoted n) (repr_names (map fst TYPE_MAPPING))"
    unfolding repr_names_def .
  from sublist_inside [OF this, of
      "''Unsupported field type '' @ quoted (py_str x) @ '' for field '' @ quoted f @
       '' in entity '' @ quoted e @ ''. Supported types: ''" "[]"]
  show ?thesis unfolding unsupported_message_def by (simp only: append_assoc append_Nil2)
qed

lemmas entity_eval = create_entity_types_from_dict_def create_entity_types_from_dict_model_def
  dict_items_def type_lookup_def TYPE_MAPPING_def create_model_def field_of_def

section \<open>Decoding a pair key\<close>

text \<open>
  C6.  A key that begins with \<^verbatim>\<open>('\<close> and ends with \<^verbatim>\<open>')\<close> is cut by two characters at each
  end; the rest is split at the separator \<^verbatim>\<open>',\<close>; when that gives two parts, each part is
  stripped of surrounding whitespace and then of surrounding quote characters, and the two
  results are the pair under which the list is stored, by the dict entry point and by the
  JSON entry point alike.  A key of at least four characters is its prefix, the cut-out
  content and its suffix.  The key \<^verbatim>\<open>('Person', 'Company')\<close> gives the pair of \<^verbatim>\<open>Person\<close>
  and \<^verbatim>\<open>Company\<close>.
\<close>

theorem decode_pair_key:
  assumes "prefix key_prefix k" and "suffix key_suffix k"
    and "py_split (slice k 2 2) key_separator = [a, b]"
    and "loads s = Inr (VDict [(k, VList l)])"
  shows \<open>convert_edge_mappings [(k, VList l)] =
           Inr [((strip_chars (strip a) quote_chars, strip_chars (strip b) quote_chars), VList l)]
       \<and> parse_json_to_edge_mappings loads s =
           Inr [((strip_chars (strip a) quote_chars, strip_chars (strip b) quote_chars), VList l)]
       \<and> (4 \<le> length k \<longrightarrow> k = key_prefix @ slice k 2 2 @ key_suffix)
       \<and> convert_edge_mappings [(''('Person', 'Company')'', VList l)] =
           Inr [((''Person'', ''Company''), VList l)]\<close>
proof -
  have p: "pair_of_key k = Some (strip_chars (strip a) quote_chars, strip_chars (strip b) quote_chars)"
    using assms(1-3) by (rule pair_of_key_parts)
  have 1: "convert_edge_mappings [(k, VList l)] =
           Inr [((strip_chars (strip a) quote_chars, strip_chars (strip b) quote_chars), VList l)]"
    using p by (rule edge_single) (simp add: isinstance_list_def)
  have 2: \<open>convert_edge_mappings [(''('Person', 'Company')'', VList l)] =
           Inr [((''Person'', ''Company''), VList l)]\<close>
    by (simp add: convert_edge_mappings_def convert_edge_mappings_try_def startswith_def
        endswith_def key_prefix_def key_suffix_def slice_def py_split_def key_separator_def
        strip_def strip_chars_def whitespace_def quote_chars_def isinstance_list_def)
  show ?thesis
    using 1 2 assms(4) edge_json_decoded [of loads s "[(k, VList l)]"] key_cut [OF assms(1,2)]
    by simp
qed

theorem decode_pair_key_witness:
  \<open>sample_loads ''{"('A', 'B')": ["KNOWS"]}'' = Inr (VDict [(''('A', 'B')'', VList [VStr ''KNOWS''])])
   \<and> py_split (slice ''('A', 'B')'' 2 2) key_separator = [''A'', '' 'B'']
   \<and> parse_json_to_edge_mappings sample_loads ''{"('A', 'B')": ["KNOWS"]}'' =
        Inr [((''A'', ''B''), VList [VStr ''KNOWS''])]
   \<and> ''('A', 'B')'' = key_prefix @ ''A', 'B'' @ key_suffix\<close>
proof -
  have l: \<open>sample_loads ''{"('A', 'B')": ["KNOWS"]}'' = Inr (VDict [(''('A', 'B')'', VList [VStr ''KNOWS''])])\<close>
    by (simp add: sample_loads_def sample_texts_def)
  have sp: \<open>py_split (slice ''('A', 'B')'' 2 2) key_separator = [''A'', '' 'B'']\<close>
    by (simp add: slice_def py_split_def key_separator_def)
  have pre: \<open>prefix key_prefix ''('A', 'B')''\<close> by (simp add: key_prefix_def)
  have suf: \<open>suffix key_suffix ''('A', 'B')''\<close> by (simp add: key_suffix_def suffix_def)
  show ?thesis
    using decode_pair_key [where loads = sample_loads, OF pre suf sp l] l sp
    by (simp add: strip_def strip_chars_def whitespace_def quote_chars_def slice_def)
qed


section \<open>Malformed keys\<close>

text \<open>
  C7.  A key that does not begin with \<^verbatim>\<open>('\<close> or does not end with \<^verbatim>\<open>')\<close> makes the
  building of the table fail as soon as the loop reaches it: both entry points raise the
  \<^verbatim>\<open>ValueError\<close> whose message quotes the key and gives the expected pattern
  \<^verbatim>\<open>"('Source', 'Target')"\<close>.  (The spec's KeyFormatError is this \<^verbatim>\<open>ValueError\<close>.)
\<close>

theorem malformed_key_rejected:
  assumes "\<not> prefix key_prefix k \<or> \<not> suffix key_suffix k"
    and "convert_edge_mappings_loop [] pre = Inr t"
    and "loads s = Inr (VDict (pre @ (k, v) # rest))"
  shows \<open>convert_edge_mappings (pre @ (k, v) # rest) = Inl (ValueError (key_format_message k))
       \<and> parse_json_to_edge_mappings loads s = Inl (ValueError (key_format_message k))
       \<and> key_format_message k =
           ''Invalid edge mapping key format: '' @ [CHR 0x27] @ k @ [CHR 0x27] @
           ''. Expected format: "('Source', 'Target')"''\<close>
proof -
  from assms(1) have bad: "\<not> startswith k key_prefix \<or> \<not> endswith k key_suffix"
    by (simp add: startswith_iff_prefix endswith_iff_suffix)
  have "convert_edge_mappings_loop t ((k, v) # rest) = Inl (ValueError (key_format_message k))"
    using bad by (simp only: edge_step) simp
  then have 1: "convert_edge_mappings (pre @ (k, v) # rest) = Inl (ValueError (key_format_message k))"
    using edge_reached [OF assms(2)] by simp
  have 2: "parse_json_to_edge_mappings loads s = convert_edge_mappings (pre @ (k, v) # rest)"
    using assms(3) edge_json_decoded [of loads s "pre @ (k, v) # rest"] by simp
  show ?thesis using 1 2 by (simp add: key_format_message_def quoted_def sq_def)
qed

theorem malformed_key_rejected_witness:
  \<open>\<not> prefix key_prefix ''Person, Company''
   \<and> convert_edge_mappings_loop [] [(''('A', 'B')'', VList [VStr ''KNOWS''])] =
        Inr [((''A'', ''B''), VList [VStr ''KNOWS''])]
   \<and> sample_loads ''{"('A', 'B')": ["KNOWS"], "Person, Company": ["WORKS_AT"]}'' =
        Inr (VDict ([(''('A', 'B')'', VList [VStr ''KNOWS''])] @
               (''Person, Company'', VList [VStr ''WORKS_AT'']) # []))
   \<and> parse_json_to_edge_mappings sample_loads
        ''{"('A', 'B')": ["KNOWS"], "Person, Company": ["WORKS_AT"]}'' =
        Inl (ValueError (''Invalid edge mapping key format: 'Person, Company'. '' @
               ''Expected format: "('Source', 'Target')"''))\<close>
proof -
  have bad: \<open>\<not> prefix key_prefix ''Person, Company'' \<or> \<not> suffix key_suffix ''Person, Company''\<close>
    by (simp add: key_prefix_def)
  have pre: \<open>convert_edge_mappings_loop [] [(''('A', 'B')'', VList [VStr ''KNOWS''])] =
        Inr [((''A'', ''B''), VList [VStr ''KNOWS''])]\<close>
    by (simp add: convert_edge_mappings_try_def startswith_def
        endswith_def key_prefix_def key_suffix_def slice_def py_split_def key_separator_def
        strip_def strip_chars_def whitespace_def quote_chars_def isinstance_list_def)
  have l: \<open>sample_loads ''{"('A', 'B')": ["KNOWS"], "Person, Company": ["WORKS_AT"]}'' =
        Inr (VDict ([(''('A', 'B')'', VList [VStr ''KNOWS''])] @
               (''Person, Company'', VList [VStr ''WORKS_AT'']) # []))\<close>
    by (simp add: sample_loads_def sample_texts_def)
  show ?thesis
    using malformed_key_rejected [where loads = sample_loads, OF bad pre l] pre l
    by (simp add: key_prefix_def)
qed

section \<open>Values that are not lists\<close>

text \<open>
  C8.  An entry whose key decodes to a pair and whose value is not a list makes the
  building of the table fail as soon as the loop reaches it: both entry points raise a
  \<^verbatim>\<open>ValueError\<close> whose message names the key and the type of the value received.  (The
  spec's ValueShapeError is this \<^verbatim>\<open>ValueError\<close>; it is raised inside the \<^verbatim>\<open>try\<close> block
  and so carries the prefix of the \<^verbatim>\<open>except\<close> clause.)
\<close>

theorem non_list_value_rejected:
  assumes "pair_of_key k = Some p"
    and "\<forall>xs. v \<noteq> VList xs"
    and "convert_edge_mappings_loop [] pre = Inr t"
    and "loads s = Inr (VDict (pre @ (k, v) # rest))"
  shows \<open>convert_edge_mappings (pre @ (k, v) # rest) =
           Inl (ValueError (''Failed to parse edge mapping key '' @ [CHR 0x27] @ k @ [CHR 0x27] @
                  '': Edge list for key '' @ [CHR 0x27] @ k @ [CHR 0x27] @
                  '' must be a list, got: <class '' @ [CHR 0x27] @ type_name v @ [CHR 0x27] @ ''>''))
       \<and> parse_json_to_edge_mappings loads s = convert_edge_mappings (pre @ (k, v) # rest)\<close>
proof -
  from assms(2) have nl: "\<not> isinstance_list v"
    by (cases v) (simp_all add: isinstance_list_def)
  from assms(1) have ok: "startswith k key_prefix" "endswith k key_suffix" "length (key_parts k) = 2"
    by (simp_all add: pair_of_key_def split: if_splits)
  have "convert_edge_mappings_loop t ((k, v) # rest) =
        Inl (ValueError (''Failed to parse edge mapping key '' @ quoted k @ '': '' @
               ''Edge list for key '' @ quoted k @ '' must be a list, got: '' @ type_repr v))"
    using ok nl by (simp only: edge_step) simp
  then have 1: "convert_edge_mappings (pre @ (k, v) # rest) =
        Inl (ValueError (''Failed to parse edge mapping key '' @ quoted k @ '': '' @
               ''Edge list for key '' @ quoted k @ '' must be a list, got: '' @ type_repr v))"
    using edge_reached [OF assms(3)] by simp
  have 2: "parse_json_to_edge_mappings loads s = convert_edge_mappings (pre @ (k, v) # rest)"
    using assms(4) edge_json_decoded [of loads s "pre @ (k, v) # rest"] by simp
  show ?thesis using 1 2 by (simp add: quoted_def sq_def type_repr_def)
qed

theorem non_list_value_rejected_witness:
  \<open>pair_of_key ''('Person', 'Company')'' = Some (''Person'', ''Company'')
   \<and> convert_edge_mappings_loop [] [(''('A', 'B')'', VList [VStr ''KNOWS''])] =
        Inr [((''A'', ''B''), VList [VStr ''KNOWS''])]
   \<and> parse_json_to_edge_mappings sample_loads
        ''{"('A', 'B')": ["KNOWS"], "('Person', 'Company')": "WORKS_AT"}'' =
        Inl (ValueError (''Failed to parse edge mapping key '('Person', 'Company')': '' @
               ''Edge list for key '('Person', 'Company')' must be a list, got: <class 'str'>''))\<close>
proof -
  have p: \<open>pair_of_key ''('Person', 'Company')'' = Some (''Person'', ''Company'')\<close>
    by (simp add: pair_of_key_def key_parts_def edge_eval)
  have nl: \<open>\<forall>xs. VStr ''WORKS_AT'' \<noteq> VList xs\<close> by simp
  have pre: \<open>convert_edge_mappings_loop [] [(''('A', 'B')'', VList [VStr ''KNOWS''])] =
        Inr [((''A'', ''B''), VList [VStr ''KNOWS''])]\<close>
    by (simp add: edge_eval)
  have l: \<open>sample_loads ''{"('A', 'B')": ["KNOWS"], "('Person', 'Company')": "WORKS_AT"}'' =
        Inr (VDict ([(''('A', 'B')'', VList [VStr ''KNOWS''])] @
               (''('Person', 'Company')'', VStr ''WORKS_AT'') # []))\<close>
    by (simp add: sample_loads_def sample_texts_def)
  show ?thesis
    using non_list_value_rejected [where loads = sample_loads, OF p nl pre l] p pre
    by simp
qed

section \<open>Keys that decode to the same pair\<close>

text \<open>
  C4.  When every entry of the input is well formed and two entries have keys that decode
  to the same pair, with no later entry decoding to that pair, the building succeeds and
  the table holds exactly one entry for the pair, with the value of the later of the two.
  For the spellings \<^verbatim>\<open>('A','B')\<close> and \<^verbatim>\<open>('A', 'B')\<close> the table is the single entry of the
  pair of \<^verbatim>\<open>A\<close> and \<^verbatim>\<open>B\<close> with the second list.
\<close>

theorem duplicate_pair_last_wins:
  assumes "\<forall>(k, v) \<in> set d. pair_of_key k \<noteq> None \<and> (\<exists>xs. v = VList xs)"
    and "d = pre @ (k1, v1) # mid @ (k2, v2) # post"
    and "pair_of_key k1 = Some p" and "pair_of_key k2 = Some p"
    and "\<forall>(k, v) \<in> set post. pair_of_key k \<noteq> Some p"
    and "loads s = Inr (VDict d)"
  shows \<open>(\<exists>t. convert_edge_mappings d = Inr t \<and> parse_json_to_edge_mappings loads s = Inr t
            \<and> filter (\<lambda>e. fst e = p) t = [(p, v2)])
       \<and> convert_edge_mappings
            [(''('A','B')'', VList [VStr ''WORKS_AT'']), (''('A', 'B')'', VList [VStr ''MANAGES''])] =
           Inr [((''A'', ''B''), VList [VStr ''MANAGES''])]\<close>
proof -
  have wf: "\<forall>(k, v) \<in> set d. pair_of_key k \<noteq> None \<and> isinstance_list v"
    using assms(1) by (auto simp: isinstance_list_def)
  then obtain t where t: "convert_edge_mappings_loop [] d = Inr t"
    using edge_loop_succeeds by blast
  have d: "d = (pre @ (k1, v1) # mid) @ (k2, v2) # post" using assms(2) by simp
  from t obtain t1 where t1: "convert_edge_mappings_loop [] (pre @ (k1, v1) # mid) = Inr t1"
    and rest: "convert_edge_mappings_loop t1 ((k2, v2) # post) = Inr t"
    unfolding d edge_loop_append by (auto split: sum.splits)
  from wf have v2: "isinstance_list v2" unfolding d by simp
  from rest have post: "convert_edge_mappings_loop (AList.update p v2 t1) post = Inr t"
    by (simp only: edge_step_ok [OF assms(4) v2])
  have "map_of t p = map_of (AList.update p v2 t1) p"
    using post assms(5) by (rule edge_loop_untouched)
  then have m: "map_of t p = Some v2" by (simp add: update_conv')
  have "distinct (map fst t)" using t by (rule edge_loop_distinct) simp
  then have f: "filter (\<lambda>e. fst e = p) t = [(p, v2)]" using m by (rule one_entry)
  have j: "parse_json_to_edge_mappings loads s = convert_edge_mappings d"
    using assms(6) edge_json_decoded [of loads s d] by simp
  have ex: \<open>convert_edge_mappings
            [(''('A','B')'', VList [VStr ''WORKS_AT'']), (''('A', 'B')'', VList [VStr ''MANAGES''])] =
           Inr [((''A'', ''B''), VList [VStr ''MANAGES''])]\<close>
    by (simp add: edge_eval)
  show ?thesis using t f j ex by (simp add: convert_edge_mappings_def)
qed

theorem duplicate_pair_last_wins_witness:
  \<open>''('A','B')'' \<noteq> ''('A', 'B')''
   \<and> pair_of_key ''('A','B')'' = Some (''A'', ''B'')
   \<and> pair_of_key ''('A', 'B')'' = Some (''A'', ''B'')
   \<and> (\<exists>t. parse_json_to_edge_mappings sample_loads
              ''{"('A','B')": ["WORKS_AT"], "('A', 'B')": ["MANAGES"]}'' = Inr t
          \<and> filter (\<lambda>e. fst e = (''A'', ''B'')) t = [((''A'', ''B''), VList [VStr ''MANAGES''])])\<close>
proof -
  have p1: \<open>pair_of_key ''('A','B')'' = Some (''A'', ''B'')\<close>
    by (simp add: pair_of_key_def key_parts_def edge_eval)
  have p2: \<open>pair_of_key ''('A', 'B')'' = Some (''A'', ''B'')\<close>
    by (simp add: pair_of_key_def key_parts_def edge_eval)
  have wf: \<open>\<forall>(k, v) \<in> set [(''('A','B')'', VList [VStr ''WORKS_AT'']),
               (''('A', 'B')'', VList [VStr ''MANAGES''])].
             pair_of_key k \<noteq> None \<and> (\<exists>xs. v = VList xs)\<close>
    using p1 p2 by simp
  have d: \<open>[(''('A','B')'', VList [VStr ''WORKS_AT'']), (''('A', 'B')'', VList [VStr ''MANAGES''])] =
           [] @ (''('A','B')'', VList [VStr ''WORKS_AT'']) # [] @
           (''('A', 'B')'', VList [VStr ''MANAGES'']) # []\<close>
    by simp
  have post: \<open>\<forall>(k, v) \<in> set ([] :: (string \<times> pyvalue) list). pair_of_key k \<noteq> Some (''A'', ''B'')\<close>
    by simp
  have l: \<open>sample_loads ''{"('A','B')": ["WORKS_AT"], "('A', 'B')": ["MANAGES"]}'' =
        Inr (VDict [(''('A','B')'', VList [VStr ''WORKS_AT'']),
                    (''('A', 'B')'', VList [VStr ''MANAGES''])])\<close>
    by (simp add: sample_loads_def sample_texts_def)
  show ?thesis
    using duplicate_pair_last_wins [where loads = sample_loads, OF wf d p1 p2 post l] p1 p2
    by auto
qed

section \<open>Whitespace inside the quotes\<close>

text \<open>
  C9.  Each part is stripped of whitespace once and then of quote characters once.  The
  key \<^verbatim>\<open>(' A ', ' B ')\<close> is cut to the parts \<^verbatim>\<open> A \<close> and \<^verbatim>\<open> ' B \<close>; the first becomes
  \<^verbatim>\<open>A\<close>, the second loses its outer blanks and then its quote and keeps the blank before
  \<^verbatim>\<open>B\<close>, so the list is stored under the pair of \<^verbatim>\<open>A\<close> and \<^verbatim>\<open> B\<close>.
\<close>

theorem inner_whitespace_survives:
  assumes \<open>loads s = Inr (VDict [(''(' A ', ' B ')'', VList l)])\<close>
  shows \<open>convert_edge_mappings [(''(' A ', ' B ')'', VList l)] = Inr [((''A'', '' B''), VList l)]
       \<and> parse_json_to_edge_mappings loads s = Inr [((''A'', '' B''), VList l)]
       \<and> py_split (slice ''(' A ', ' B ')'' 2 2) key_separator = ['' A '', '' ' B '']
       \<and> strip '' A '' = ''A'' \<and> strip_chars ''A'' quote_chars = ''A''
       \<and> strip '' ' B '' = ''' B'' \<and> strip_chars ''' B'' quote_chars = '' B''\<close>
proof -
  have 1: \<open>convert_edge_mappings [(''(' A ', ' B ')'', VList l)] = Inr [((''A'', '' B''), VList l)]\<close>
    by (simp add: edge_eval)
  have 2: \<open>parse_json_to_edge_mappings loads s =
           convert_edge_mappings [(''(' A ', ' B ')'', VList l)]\<close>
    using assms edge_json_decoded [of loads s] by simp
  have 3: \<open>py_split (slice ''(' A ', ' B ')'' 2 2) key_separator = ['' A '', '' ' B '']
       \<and> strip '' A '' = ''A'' \<and> strip_chars ''A'' quote_chars = ''A''
       \<and> strip '' ' B '' = ''' B'' \<and> strip_chars ''' B'' quote_chars = '' B''\<close>
    by (simp add: edge_eval)
  show ?thesis using 1 2 3 by simp
qed

theorem inner_whitespace_survives_witness:
  \<open>sample_loads ''{"(' A ', ' B ')": ["KNOWS"]}'' = Inr (VDict [(''(' A ', ' B ')'', VList [VStr ''KNOWS''])])
   \<and> parse_json_to_edge_mappings sample_loads ''{"(' A ', ' B ')": ["KNOWS"]}'' =
        Inr [((''A'', '' B''), VList [VStr ''KNOWS''])]\<close>
proof -
  have l: \<open>sample_loads ''{"(' A ', ' B ')": ["KNOWS"]}'' =
        Inr (VDict [(''(' A ', ' B ')'', VList [VStr ''KNOWS''])])\<close>
    by (simp add: sample_loads_def sample_texts_def)
  show ?thesis
    using inner_whitespace_survives [where loads = sample_loads, OF l] l by simp
qed

section \<open>Unknown field types\<close>

text \<open>
  C3.  Let \<open>t\<close> be a string that is not a name of the type table, given as the type of a
  field whose earlier fields have supported types, in an entry whose earlier entries were
  built.  Then both entity entry points raise the module's \<^verbatim>\<open>TypeError\<close> (the spec's
  UnknownTypeError); its message names the type, the field and the entity and ends with
  the list of the twelve names of the table, each of which it contains in quotes.
\<close>

theorem unknown_type_rejected:
  assumes "t \<notin> fst ` set TYPE_MAPPING"
    and "create_entity_types_from_dict_loop rejects [] pre = Inr acc"
    and "map_of cfg ''fields'' = Some (VDict (fpre @ (fname, VStr t) # fpost))"
    and "\<forall>(f, v) \<in> set fpre. \<exists>n \<in> fst ` set TYPE_MAPPING. v = VStr n"
    and "loads s = Inr (VDict (pre @ (ename, VDict cfg) # post))"
  shows \<open>create_entity_types_from_dict rejects (pre @ (ename, VDict cfg) # post) =
           Inl (TypeError (unsupported_message (SStr t) fname ename))
       \<and> parse_json_to_entity_types loads rejects s =
           Inl (TypeError (unsupported_message (SStr t) fname ename))
       \<and> unsupported_message (SStr t) fname ename =
           ''Unsupported field type '' @ [CHR 0x27] @ t @ [CHR 0x27] @
           '' for field '' @ [CHR 0x27] @ fname @ [CHR 0x27] @
           '' in entity '' @ [CHR 0x27] @ ename @ [CHR 0x27] @
           ''. Supported types: ['str', 'int', 'float', 'bool', 'list', 'dict', '' @
           '''List[str]', 'List[int]', 'List[float]', 'Dict[str, Any]', 'Dict[str, str]', '' @
           '''Dict[str, int]']''
       \<and> length (map fst TYPE_MAPPING) = 12 \<and> distinct (map fst TYPE_MAPPING)
       \<and> (\<forall>n \<in> fst ` set TYPE_MAPPING.
             sublist ([CHR 0x27] @ n @ [CHR 0x27]) (unsupported_message (SStr t) fname ename))\<close>
proof -
  obtain pf where pf:
    "create_entity_types_from_dict_fields ename [] (fpre @ (fname, VStr t) # fpost) =
     create_entity_types_from_dict_fields ename pf ((fname, VStr t) # fpost)"
    using fields_supported_prefix [OF assms(4)] by blast
  have f: "create_entity_types_from_dict_fields ename [] (fpre @ (fname, VStr t) # fpost) =
     Inl (TypeError (unsupported_message (SStr t) fname ename))"
    unfolding pf using assms(1) by (rule fields_unsupported)
  have "create_entity_types_from_dict_loop rejects acc ((ename, VDict cfg) # post) =
     Inl (TypeError (unsupported_message (SStr t) fname ename))"
    by (simp add: assms(3) create_entity_types_from_dict_model_def dict_items_def f)
  then have 1: "create_entity_types_from_dict rejects (pre @ (ename, VDict cfg) # post) =
     Inl (TypeError (unsupported_message (SStr t) fname ename))"
    using entity_reached [OF assms(2)] by simp
  have 2: "parse_json_to_entity_types loads rejects s =
     create_entity_types_from_dict rejects (pre @ (ename, VDict cfg) # post)"
    using assms(5) entity_json_decoded [of loads s "pre @ (ename, VDict cfg) # post" rejects] by simp
  have 3: \<open>unsupported_message (SStr t) fname ename =
           ''Unsupported field type '' @ [CHR 0x27] @ t @ [CHR 0x27] @
           '' for field '' @ [CHR 0x27] @ fname @ [CHR 0x27] @
           '' in entity '' @ [CHR 0x27] @ ename @ [CHR 0x27] @
           ''. Supported types: ['str', 'int', 'float', 'bool', 'list', 'dict', '' @
           '''List[str]', 'List[int]', 'List[float]', 'Dict[str, Any]', 'Dict[str, str]', '' @
           '''Dict[str, int]']''\<close>
    by (simp add: unsupported_message_def repr_names_text supported_names_text_def quoted_def sq_def)
  have 4: "length (map fst TYPE_MAPPING) = 12 \<and> distinct (map fst TYPE_MAPPING)"
    by (simp add: TYPE_MAPPING_def)
  have 5: "\<forall>n \<in> fst ` set TYPE_MAPPING.
             sublist ([CHR 0x27] @ n @ [CHR 0x27]) (unsupported_message (SStr t) fname ename)"
    using names_in_message [of _ "SStr t" fname ename] by (simp add: quoted_def sq_def)
  show ?thesis using 1 2 3 4 5 by (simp only: simp_thms)
qed

theorem unknown_type_rejected_witness:
  \<open>''string'' \<notin> fst ` set TYPE_MAPPING
   \<and> parse_json_to_entity_types sample_loads accept_all ''{"E": {"fields": {"x": "string"}}}'' =
       Inl (TypeError (''Unsupported field type 'string' for field 'x' in entity 'E'. '' @
         ''Supported types: ['str', 'int', 'float', 'bool', 'list', 'dict', 'List[str]', '' @
         '''List[int]', 'List[float]', 'Dict[str, Any]', 'Dict[str, str]', 'Dict[str, int]']''))
   \<and> create_entity_types_from_dict accept_all
         [(''E'', VDict [(''fields'', VDict [(''x'', VStr ''string'')])])] =
       Inl (TypeError (unsupported_message (SStr ''string'') ''x'' ''E''))\<close>
proof -
  have t: \<open>''string'' \<notin> fst ` set TYPE_MAPPING\<close> by (simp add: TYPE_MAPPING_def)
  have pre: \<open>create_entity_types_from_dict_loop accept_all [] [] = Inr []\<close> by simp
  have cfg: \<open>map_of [(''fields'', VDict [(''x'', VStr ''string'')])] ''fields'' =
       Some (VDict ([] @ (''x'', VStr ''string'') # []))\<close> by simp
  have fpre: \<open>\<forall>(f, v) \<in> set ([] :: (string \<times> pyvalue) list). \<exists>n \<in> fst ` set TYPE_MAPPING. v = VStr n\<close>
    by simp
  have l: \<open>sample_loads ''{"E": {"fields": {"x": "string"}}}'' =
       Inr (VDict ([] @ (''E'', VDict [(''fields'', VDict [(''x'', VStr ''string'')])]) # []))\<close>
    by (simp add: sample_loads_def sample_texts_def)
  show ?thesis
    using unknown_type_rejected [where loads = sample_loads, OF t pre cfg fpre l] t
    by simp
qed


section \<open>A record type with two fields and a docstring\<close>

text \<open>
  C5.  For an entry whose \<^verbatim>\<open>fields\<close> are \<^verbatim>\<open>{"name": "str", "age": "int"}\<close> and whose
  \<^verbatim>\<open>docstring\<close> is \<^verbatim>\<open>A person\<close>, and which pydantic accepts, the building succeeds: the
  table holds one record type, with exactly the two fields \<^verbatim>\<open>name\<close> of type \<^verbatim>\<open>str\<close> and
  \<^verbatim>\<open>age\<close> of type \<^verbatim>\<open>int\<close>, in this order and both required, and with the docstring
  \<^verbatim>\<open>A person\<close>.  The three entry points for types give the same table.
\<close>

theorem person_type_built:
  assumes "rejects n [(''name'', T_str, Ellipsis), (''age'', T_int, Ellipsis)] = None"
    and "map_of cfg ''fields'' = Some (VDict [(''name'', VStr ''str''), (''age'', VStr ''int'')])"
    and "map_of cfg ''docstring'' = Some (VStr ''A person'')"
    and "loads s = Inr (VDict [(n, VDict cfg)])"
  shows "create_entity_types_from_dict rejects [(n, VDict cfg)] =
           Inr [(n, \<lparr>model_name = n,
                     model_fields = [(''name'', \<lparr>annotation = T_str, required = True\<rparr>),
                                     (''age'', \<lparr>annotation = T_int, required = True\<rparr>)],
                     model_doc = Some (VStr ''A person'')\<rparr>)]
       \<and> parse_json_to_entity_types loads rejects s = create_entity_types_from_dict rejects [(n, VDict cfg)]
       \<and> parse_json_to_edge_types loads rejects s = create_entity_types_from_dict rejects [(n, VDict cfg)]"
proof -
  have 1: "create_entity_types_from_dict rejects [(n, VDict cfg)] =
           Inr [(n, \<lparr>model_name = n,
                     model_fields = [(''name'', \<lparr>annotation = T_str, required = True\<rparr>),
                                     (''age'', \<lparr>annotation = T_int, required = True\<rparr>)],
                     model_doc = Some (VStr ''A person'')\<rparr>)]"
    by (simp add: entity_eval assms(1-3))
  have 2: "parse_json_to_entity_types loads rejects s =
           create_entity_types_from_dict rejects [(n, VDict cfg)]"
    using assms(4) entity_json_decoded [of loads s "[(n, VDict cfg)]" rejects] by simp
  show ?thesis using 1 2 by (simp add: parse_json_to_edge_types_def)
qed

theorem person_type_built_witness:
  \<open>accept_all ''Person'' [(''name'', T_str, Ellipsis), (''age'', T_int, Ellipsis)] = None
   \<and> parse_json_to_entity_types sample_loads accept_all
        ''{"Person": {"fields": {"name": "str", "age": "int"}, "docstring": "A person"}}'' =
      Inr [(''Person'', \<lparr>model_name = ''Person'',
                     model_fields = [(''name'', \<lparr>annotation = T_str, required = True\<rparr>),
                                     (''age'', \<lparr>annotation = T_int, required = True\<rparr>)],
                     model_doc = Some (VStr ''A person'')\<rparr>)]\<close>
proof -
  have a: \<open>accept_all ''Person'' [(''name'', T_str, Ellipsis), (''age'', T_int, Ellipsis)] = None\<close>
    by (simp add: accept_all_def)
  have f: \<open>map_of [(''fields'', VDict [(''name'', VStr ''str''), (''age'', VStr ''int'')]),
                  (''docstring'', VStr ''A person'')] ''fields'' =
           Some (VDict [(''name'', VStr ''str''), (''age'', VStr ''int'')])\<close> by simp
  have d: \<open>map_of [(''fields'', VDict [(''name'', VStr ''str''), (''age'', VStr ''int'')]),
                  (''docstring'', VStr ''A person'')] ''docstring'' = Some (VStr ''A person'')\<close>
    by simp
  have l: \<open>sample_loads
        ''{"Person": {"fields": {"name": "str", "age": "int"}, "docstring": "A person"}}'' =
      Inr (VDict [(''Person'',
             VDict [(''fields'', VDict [(''name'', VStr ''str''), (''age'', VStr ''int'')]),
                    (''docstring'', VStr ''A person'')])])\<close>
    by (simp add: sample_loads_def sample_texts_def)
  show ?thesis
    using person_type_built [where loads = sample_loads and rejects = accept_all, OF a f d l] a
    by simp
qed

section \<open>Edge types against entity types\<close>

text \<open>
  When the entity entry point returns a table, the edge entry point returns the same
  table.
\<close>

lemma edge_types_same_on_success:
  "parse_json_to_entity_types loads rejects s = Inr t \<Longrightarrow>
   parse_json_to_edge_types loads rejects s = Inr t"
  by (simp add: parse_json_to_edge_types_def)

text \<open>
  C1.  The two entry points do not fail alike.  On the text
  \<^verbatim>\<open>{"E": {"fields": {"x": "string"}}}\<close>, whose only defect is the unknown field type
  \<^verbatim>\<open>string\<close>, the entity entry point raises the module's \<^verbatim>\<open>TypeError\<close> and the edge entry
  point raises a \<^verbatim>\<open>ValueError\<close> that wraps its message, although the docstring of the edge
  entry point announces a \<^verbatim>\<open>TypeError\<close> for an unsupported field type.
\<close>

theorem edge_types_turn_type_error_into_value_error:
  assumes "loads s = Inr (VDict [(''E'', VDict [(''fields'', VDict [(''x'', VStr ''string'')])])])"
  shows "parse_json_to_entity_types loads rejects s =
           Inl (TypeError (unsupported_message (SStr ''string'') ''x'' ''E''))
       \<and> parse_json_to_edge_types loads rejects s =
           Inl (ValueError (''Failed to parse edge types: '' @
                  unsupported_message (SStr ''string'') ''x'' ''E''))"
proof -
  have "parse_json_to_entity_types loads rejects s =
        create_entity_types_from_dict rejects [(''E'', VDict [(''fields'', VDict [(''x'', VStr ''string'')])])]"
    using assms entity_json_decoded [of loads s _ rejects] by simp
  then have 1: "parse_json_to_entity_types loads rejects s =
           Inl (TypeError (unsupported_message (SStr ''string'') ''x'' ''E''))"
    by (simp add: entity_eval)
  show ?thesis using 1 by (simp add: parse_json_to_edge_types_def)
qed

theorem edge_types_turn_type_error_into_value_error_witness:
  \<open>sample_loads ''{"E": {"fields": {"x": "string"}}}'' =
     Inr (VDict [(''E'', VDict [(''fields'', VDict [(''x'', VStr ''string'')])])])
   \<and> (\<exists>m. parse_json_to_entity_types sample_loads accept_all ''{"E": {"fields": {"x": "string"}}}'' =
            Inl (TypeError m)
        \<and> parse_json_to_edge_types sample_loads accept_all ''{"E": {"fields": {"x": "string"}}}'' =
            Inl (ValueError (''Failed to parse edge types: '' @ m)))\<close>
proof -
  have l: \<open>sample_loads ''{"E": {"fields": {"x": "string"}}}'' =
     Inr (VDict [(''E'', VDict [(''fields'', VDict [(''x'', VStr ''string'')])])])\<close>
    by (simp add: sample_loads_def sample_texts_def)
  show ?thesis
    using edge_types_turn_type_error_into_value_error [where loads = sample_loads
        and rejects = accept_all, OF l] l
    by simp
qed

section \<open>The JSON entry points against the dict entry points\<close>

text \<open>
  C2.  Let \<open>dumps\<close> stand for \<^verbatim>\<open>json.dumps\<close>.  For every dict that decoding gives back from
  its serialization, the JSON entry point applied to the serialization returns the table,
  or raises the exception, of the dict entry point applied to the dict: for the edge
  mappings and for the entity types.
\<close>

theorem json_route_is_dict_route:
  assumes "loads (dumps (VDict e)) = Inr (VDict e)"
    and "loads (dumps (VDict d)) = Inr (VDict d)"
  shows "parse_json_to_edge_mappings loads (dumps (VDict e)) = convert_edge_mappings e
       \<and> parse_json_to_entity_types loads rejects (dumps (VDict d)) =
           create_entity_types_from_dict rejects d"
  using assms edge_json_decoded [of loads "dumps (VDict e)" e]
    entity_json_decoded [of loads "dumps (VDict d)" d rejects]
  by simp

theorem json_route_is_dict_route_witness:
  \<open>sample_loads (sample_dumps (VDict [(''('A', 'B')'', VList [VStr ''KNOWS''])])) =
     Inr (VDict [(''('A', 'B')'', VList [VStr ''KNOWS''])])
   \<and> sample_dumps (VDict [(''('A', 'B')'', VList [VStr ''KNOWS''])]) = ''{"('A', 'B')": ["KNOWS"]}''
   \<and> sample_loads (sample_dumps
        (VDict [(''E'', VDict [(''fields'', VDict [(''x'', VStr ''string'')])])])) =
     Inr (VDict [(''E'', VDict [(''fields'', VDict [(''x'', VStr ''string'')])])])
   \<and> parse_json_to_edge_mappings sample_loads ''{"('A', 'B')": ["KNOWS"]}'' =
       convert_edge_mappings [(''('A', 'B')'', VList [VStr ''KNOWS''])]
   \<and> parse_json_to_entity_types sample_loads accept_all ''{"E": {"fields": {"x": "string"}}}'' =
       create_entity_types_from_dict accept_all
         [(''E'', VDict [(''fields'', VDict [(''x'', VStr ''string'')])])]\<close>
proof -
  have de: \<open>sample_dumps (VDict [(''('A', 'B')'', VList [VStr ''KNOWS''])]) = ''{"('A', 'B')": ["KNOWS"]}''\<close>
    by (simp add: sample_dumps_def sample_texts_def)
  have dd: \<open>sample_dumps (VDict [(''E'', VDict [(''fields'', VDict [(''x'', VStr ''string'')])])]) =
        ''{"E": {"fields": {"x": "string"}}}''\<close>
    by (simp add: sample_dumps_def sample_texts_def)
  have le: \<open>sample_loads (sample_dumps (VDict [(''('A', 'B')'', VList [VStr ''KNOWS''])])) =
     Inr (VDict [(''('A', 'B')'', VList [VStr ''KNOWS''])])\<close>
    unfolding de by (simp add: sample_loads_def sample_texts_def)
  have ld: \<open>sample_loads (sample_dumps
        (VDict [(''E'', VDict [(''fields'', VDict [(''x'', VStr ''string'')])])])) =
     Inr (VDict [(''E'', VDict [(''fields'', VDict [(''x'', VStr ''string'')])])])\<close>
    unfolding dd by (simp add: sample_loads_def sample_texts_def)
  show ?thesis
    using json_route_is_dict_route [where loads = sample_loads and dumps = sample_dumps
        and rejects = accept_all, OF le ld] le ld de dd
    by simp
qed

section \<open>The empty input\<close>

text \<open>
  C10.  On the empty dict, and on the text \<^verbatim>\<open>{}\<close> which decodes to it, each of the five
  entry points returns the empty table.
\<close>

theorem empty_input_gives_empty_tables:
  assumes "loads ''{}'' = Inr (VDict [])"
  shows "create_entity_types_from_dict rejects [] = Inr []
       \<and> convert_edge_mappings [] = Inr []
       \<and> parse_json_to_entity_types loads rejects ''{}'' = Inr []
       \<and> parse_json_to_edge_types loads rejects ''{}'' = Inr []
       \<and> parse_json_to_edge_mappings loads ''{}'' = Inr []"
  using assms
  by (simp add: create_entity_types_from_dict_def convert_edge_mappings_def
      parse_json_to_entity_types_def parse_json_to_edge_types_def parse_json_to_edge_mappings_def
      dict_items_def)

theorem empty_input_gives_empty_tables_witness:
  "sample_loads ''{}'' = Inr (VDict [])
   \<and> parse_json_to_entity_types sample_loads accept_all ''{}'' = Inr []
   \<and> parse_json_to_edge_types sample_loads accept_all ''{}'' = Inr []
   \<and> parse_json_to_edge_mappings sample_loads ''{}'' = Inr []"
proof -
  have l: "sample_loads ''{}'' = Inr (VDict [])"
    by (simp add: sample_loads_def sample_texts_def)
  show ?thesis
    using empty_input_gives_empty_tables [where loads = sample_loads and rejects = accept_all, OF l] l
    by simp
qed

end
